theory Spec2Isabelle
  imports Main
begin

section \<open>The JavaScript that the library runs on\<close>

text \<open>
  The library is two TypeScript files: \<^verbatim>\<open>result.ts\<close> (the classes \<^verbatim>\<open>Ok\<close> and
  \<^verbatim>\<open>Err\<close>) and the index file (\<^verbatim>\<open>tryFn\<close>, \<^verbatim>\<open>tryAsync\<close>, \<^verbatim>\<open>ok\<close>, \<^verbatim>\<open>err\<close>).
  Type parameters are erased when it runs, so the model follows what the JavaScript does.

  A call of a JavaScript function either returns a value or throws one.
\<close>

datatype ('a, 'x) completion = Normal 'a | Throw 'x

text \<open>
  The values that the library coerces to a string or tests with \<^verbatim>\<open>instanceof Error\<close>:
  the payload of an \<^verbatim>\<open>Err\<close> that is unwrapped, and whatever a wrapped function throws.
  All other payloads stay polymorphic, since the library only passes them on.

  \<^item> \<open>JSNumber\<close> stands for a number or bigint and holds the text that its own
    \<^verbatim>\<open>toString\<close> gives (\<open>''42''\<close>, \<open>''-1.5''\<close>, \<open>''NaN''\<close>); the library observes
    nothing else of a number.
  \<^item> \<open>JSSymbol\<close> holds the symbol's description, if it has one.
  \<^item> \<open>ErrorInstance name message\<close> is an object made by \<^verbatim>\<open>new Error(message)\<close> or by
    one of the built-in subclasses (\<^verbatim>\<open>TypeError\<close>, \<^verbatim>\<open>SyntaxError\<close>, ...), with the
    inherited \<^verbatim>\<open>Error.prototype.toString\<close>.
  \<^item> \<open>PlainObject props\<close> is an object literal that inherits from
    \<^verbatim>\<open>Object.prototype\<close> and has the string-keyed data properties \<open>props\<close> and no
    others. A literal with a symbol-keyed property, an accessor, a method or another
    prototype is an \<open>OtherObject\<close>.
  \<^item> \<open>OtherObject isError coercion\<close> is any other object that is not callable, given by the
    two things the library can observe of it: whether \<^verbatim>\<open>Error.prototype\<close> is on its
    prototype chain, and what converting it to a string does (the string, or the value
    that the conversion throws). \<^verbatim>\<open>Object.create(null)\<close> and an object whose own
    \<^verbatim>\<open>toString\<close> method throws are of this kind.
\<close>

datatype js_value =
    JSUndefined
  | JSNull
  | JSBoolean bool
  | JSNumber string
  | JSString string
  | JSSymbol "string option"
  | ErrorInstance string string
  | PlainObject "(string \<times> js_value) list"
  | OtherObject bool "(string, js_value) completion"

text \<open>\<^verbatim>\<open>new Error(message)\<close>, and the \<^verbatim>\<open>TypeError\<close> that the engine itself raises.\<close>

definition new_Error :: "string \<Rightarrow> js_value" where
  "new_Error message = ErrorInstance ''Error'' message"

definition new_TypeError :: "string \<Rightarrow> js_value" where
  "new_TypeError message = ErrorInstance ''TypeError'' message"

text \<open>
  \<^verbatim>\<open>x instanceof Error\<close>: whether \<^verbatim>\<open>Error.prototype\<close> is on the prototype chain of
  \<open>x\<close>. A primitive has no prototype chain.
\<close>

fun instanceof_Error :: "js_value \<Rightarrow> bool" where
  "instanceof_Error (ErrorInstance name message) = True"
| "instanceof_Error (OtherObject isError coercion) = isError"
| "instanceof_Error _ = False"

text \<open>
  The abstract operation \<^verbatim>\<open>ToString\<close> of the language, which a template literal
  applies to the value of each of its substitutions.
  \<^item> A symbol is not converted: the engine throws a \<^verbatim>\<open>TypeError\<close>.
  \<^item> An object is converted through its \<^verbatim>\<open>toString\<close> method. For an
    \<open>ErrorInstance\<close> that is \<^verbatim>\<open>Error.prototype.toString\<close>. For an object literal it
    is \<^verbatim>\<open>Object.prototype.toString\<close>, which gives \<^verbatim>\<open>[object Object]\<close>, unless the
    literal has a property \<^verbatim>\<open>toString\<close> of its own: no value of the model is callable,
    so that property is skipped, \<^verbatim>\<open>valueOf\<close> gives no primitive either, and the engine
    throws a \<^verbatim>\<open>TypeError\<close>.
  The texts of the engine's own \<^verbatim>\<open>TypeError\<close>s are those of V8; other engines word
  them differently.
\<close>

fun ToString :: "js_value \<Rightarrow> (string, js_value) completion" where
  "ToString JSUndefined = Normal ''undefined''"
| "ToString JSNull = Normal ''null''"
| "ToString (JSBoolean b) = Normal (if b then ''true'' else ''false'')"
| "ToString (JSNumber text) = Normal text"
| "ToString (JSString s) = Normal s"
| "ToString (JSSymbol description) =
     Throw (new_TypeError ''Cannot convert a Symbol value to a string'')"
| "ToString (ErrorInstance name message) =
     Normal (if name = [] then message
             else if message = [] then name
             else name @ '': '' @ message)"
| "ToString (PlainObject props) =
     (if ''toString'' \<in> set (map fst props)
      then Throw (new_TypeError ''Cannot convert object to primitive value'')
      else Normal ''[object Object]'')"
| "ToString (OtherObject isError coercion) = coercion"

text \<open>
  The function \<^verbatim>\<open>String(x)\<close>. It differs from \<^verbatim>\<open>ToString\<close> on symbols only, which
  it describes instead of refusing.
\<close>

fun js_String :: "js_value \<Rightarrow> (string, js_value) completion" where
  "js_String (JSSymbol None) = Normal ''Symbol()''"
| "js_String (JSSymbol (Some description)) = Normal (''Symbol('' @ description @ '')'')"
| "js_String x = ToString x"

text \<open>
  \<^verbatim>\<open>Object.create(null)\<close>: an object with an empty prototype chain. It inherits neither
  \<^verbatim>\<open>toString\<close> nor \<^verbatim>\<open>valueOf\<close>, so the engine finds nothing to convert it with and
  throws a \<^verbatim>\<open>TypeError\<close>.
\<close>

definition null_prototype_object :: js_value where
  "null_prototype_object =
     OtherObject False (Throw (new_TypeError ''Cannot convert object to primitive value''))"

subsection \<open>State\<close>

text \<open>
  A function that the caller passes in may do anything: read and write the caller's
  variables, construct objects, throw. The state it runs in has two parts. \<open>allocated\<close>
  counts the \<^verbatim>\<open>Ok\<close> and \<^verbatim>\<open>Err\<close> objects constructed so far; every such object
  carries the count at its construction as its address, so two Results are the same
  object exactly when they are equal. All other values are compared by their content.
  \<open>world\<close> is everything else.

  A call is taken to complete, by returning or by throwing: a function of the caller that
  never returns is outside the model, and so is a conversion to a string that has effects.
\<close>

record 'w state =
  allocated :: nat
  world :: 'w

type_synonym ('a, 'w) js = "'w state \<Rightarrow> ('a, js_value) completion \<times> 'w state"

text \<open>Sequencing: run \<open>c\<close>; if it throws, so does the whole; otherwise go on with \<open>k\<close>.\<close>

definition bind :: "('a, 'w) js \<Rightarrow> ('a \<Rightarrow> ('b, 'w) js) \<Rightarrow> ('b, 'w) js" where
  "bind c k s = (case c s of (Normal a, s1) \<Rightarrow> k a s1 | (Throw x, s1) \<Rightarrow> (Throw x, s1))"

text \<open>A completion that needs no state, placed in a state.\<close>

definition pure :: "('a, js_value) completion \<Rightarrow> ('a, 'w) js" where
  "pure c s = (c, s)"

section \<open>\<^verbatim>\<open>result.ts\<close>: the classes \<^verbatim>\<open>Ok\<close> and \<^verbatim>\<open>Err\<close>\<close>

text \<open>
  \<^verbatim>\<open>type Result<T, E> = Ok<T, E> | Err<T, E>\<close>. Both classes have one readonly field
  beside the tag. The first argument of a constructor is the object's address.
\<close>

datatype ('t, 'e) result = Ok nat 't | Err nat 'e

text \<open>\<^verbatim>\<open>new Ok(v)\<close> and \<^verbatim>\<open>new Err(e)\<close>: the constructors store their argument.\<close>

definition new_Ok :: "'t \<Rightarrow> (('t, 'e) result, 'w) js" where
  "new_Ok v s = (Normal (Ok (allocated s) v), s\<lparr>allocated := Suc (allocated s)\<rparr>)"

definition new_Err :: "'e \<Rightarrow> (('t, 'e) result, 'w) js" where
  "new_Err e s = (Normal (Err (allocated s) e), s\<lparr>allocated := Suc (allocated s)\<rparr>)"

fun isOk :: "('t, 'e) result \<Rightarrow> bool" where
  "isOk (Ok a v) = True"
| "isOk (Err a e) = False"

fun isErr :: "('t, 'e) result \<Rightarrow> bool" where
  "isErr (Ok a v) = False"
| "isErr (Err a e) = True"

text \<open>
  \<^verbatim>\<open>unwrap\<close> on an \<^verbatim>\<open>Err\<close> evaluates the template literal first, which converts the
  payload with \<^verbatim>\<open>ToString\<close>; if that conversion throws, the \<^verbatim>\<open>new Error\<close> is never
  reached.
\<close>

fun unwrap :: "('t, js_value) result \<Rightarrow> ('t, js_value) completion" where
  "unwrap (Ok a v) = Normal v"
| "unwrap (Err a e) =
     (case ToString e of
        Normal text \<Rightarrow> Throw (new_Error (''Tried to unwrap an Err: '' @ text))
      | Throw x \<Rightarrow> Throw x)"

fun unwrapOr :: "('t, 'e) result \<Rightarrow> 't \<Rightarrow> 't" where
  "unwrapOr (Ok a v) defaultValue = v"
| "unwrapOr (Err a e) defaultValue = defaultValue"

text \<open>
  The methods \<^verbatim>\<open>map\<close> and \<^verbatim>\<open>or\<close> are \<open>result_map\<close> and \<open>result_or\<close> here: their
  own names are taken, by the list function, the datatype's mapper and the bitwise
  operation.
\<close>

fun result_map :: "('t, 'e) result \<Rightarrow> ('t \<Rightarrow> ('u, 'w) js) \<Rightarrow> (('u, 'e) result, 'w) js" where
  "result_map (Ok a v) fn = bind (fn v) new_Ok"
| "result_map (Err a e) fn = new_Err e"

fun mapErr :: "('t, 'e) result \<Rightarrow> ('e \<Rightarrow> ('f, 'w) js) \<Rightarrow> (('t, 'f) result, 'w) js" where
  "mapErr (Ok a v) fn = new_Ok v"
| "mapErr (Err a e) fn = bind (fn e) new_Err"

fun mapOr :: "('t, 'e) result \<Rightarrow> 'u \<Rightarrow> ('t \<Rightarrow> ('u, 'w) js) \<Rightarrow> ('u, 'w) js" where
  "mapOr (Ok a v) defaultValue fn = fn v"
| "mapOr (Err a e) defaultValue fn = pure (Normal defaultValue)"

fun andThen ::
  "('t, 'e) result \<Rightarrow> ('t \<Rightarrow> (('u, 'e) result, 'w) js) \<Rightarrow> (('u, 'e) result, 'w) js" where
  "andThen (Ok a v) fn = fn v"
| "andThen (Err a e) fn = new_Err e"

fun result_or :: "('t, 'e) result \<Rightarrow> ('t, 'f) result \<Rightarrow> (('t, 'f) result, 'w) js" where
  "result_or (Ok a v) res = new_Ok v"
| "result_or (Err a e) res = pure (Normal res)"

fun unwrapOrElse :: "('t, 'e) result \<Rightarrow> ('e \<Rightarrow> ('t, 'w) js) \<Rightarrow> ('t, 'w) js" where
  "unwrapOrElse (Ok a v) fn = pure (Normal v)"
| "unwrapOrElse (Err a e) fn = fn e"

text \<open>
  The argument of \<^verbatim>\<open>match\<close> is an object with the two handlers \<^verbatim>\<open>ok\<close> and
  \<^verbatim>\<open>err\<close>; the fields are named \<open>ok_case\<close> and \<open>err_case\<close> here, \<open>ok\<close> and \<open>err\<close>
  being the constructor functions below.
\<close>

record ('t, 'e, 'u, 'w) match_options =
  ok_case :: "'t \<Rightarrow> ('u, 'w) js"
  err_case :: "'e \<Rightarrow> ('u, 'w) js"

fun match :: "('t, 'e) result \<Rightarrow> ('t, 'e, 'u, 'w) match_options \<Rightarrow> ('u, 'w) js" where
  "match (Ok a v) options = ok_case options v"
| "match (Err a e) options = err_case options e"

section \<open>The index file: constructors and capture adapters\<close>

definition ok :: "'t \<Rightarrow> (('t, 'e) result, 'w) js" where
  "ok v = new_Ok v"

definition err :: "'e \<Rightarrow> (('t, 'e) result, 'w) js" where
  "err e = new_Err e"

text \<open>
  Both adapters build the failure with the same expression,
  \<^verbatim>\<open>new Err(error instanceof Error ? error : new Error(String(error)))\<close>.
  The argument is evaluated before the constructor runs, and nothing guards it: what
  \<^verbatim>\<open>String(error)\<close> throws leaves the \<^verbatim>\<open>catch\<close> block.
\<close>

definition catch_block :: "js_value \<Rightarrow> (('t, js_value) result, 'w) js" where
  "catch_block error =
     (if instanceof_Error error then new_Err error
      else bind (pure (js_String error)) (\<lambda>text. new_Err (new_Error text)))"

definition tryFn :: "(unit \<Rightarrow> ('t, 'w) js) \<Rightarrow> (('t, js_value) result, 'w) js" where
  "tryFn fn s =
     (case fn () s of
        (Normal v, s1) \<Rightarrow> new_Ok v s1
      | (Throw error, s1) \<Rightarrow> catch_block error s1)"

text \<open>
  A promise is modelled by how it settles; \<open>Pending\<close> is a promise that never does.
  An \<^verbatim>\<open>async\<close> function returns a promise and never throws to its caller: the value
  its body returns fulfils that promise, an exception that leaves its body rejects it.
  \<^verbatim>\<open>await p\<close> gives the value of a fulfilled \<open>p\<close>, throws the reason of a rejected
  \<open>p\<close>, and never resumes on a pending one. When the steps run is not modelled.
\<close>

datatype 'a promise = Fulfilled 'a | Rejected js_value | Pending

definition settle :: "('a, 'w) js \<Rightarrow> 'w state \<Rightarrow> 'a promise \<times> 'w state" where
  "settle body s =
     (case body s of (Normal a, s1) \<Rightarrow> (Fulfilled a, s1) | (Throw x, s1) \<Rightarrow> (Rejected x, s1))"

text \<open>
  \<^verbatim>\<open>tryAsync\<close>: both the call \<^verbatim>\<open>fn()\<close> and the \<^verbatim>\<open>await\<close> stand in the
  \<^verbatim>\<open>try\<close> block, so the \<^verbatim>\<open>catch\<close> block receives what \<^verbatim>\<open>fn\<close> throws before it
  returns a promise as well as the reason of a rejected promise.
\<close>

definition tryAsync ::
  "(unit \<Rightarrow> ('t promise, 'w) js) \<Rightarrow> 'w state \<Rightarrow> ('t, js_value) result promise \<times> 'w state" where
  "tryAsync fn s =
     (case fn () s of
        (Normal (Fulfilled v), s1) \<Rightarrow> settle (new_Ok v) s1
      | (Normal (Rejected error), s1) \<Rightarrow> settle (catch_block error) s1
      | (Normal Pending, s1) \<Rightarrow> (Pending, s1)
      | (Throw error, s1) \<Rightarrow> settle (catch_block error) s1)"

section \<open>Notions for stating the properties\<close>

text \<open>
  A chain \<^verbatim>\<open>r.andThen(f1).andThen(f2)...\<close>, as a caller writes it: each step is applied
  to the Result of the one before.
\<close>

fun andThen_chain ::
  "('t, 'e) result \<Rightarrow> ('t \<Rightarrow> (('t, 'e) result, 'w) js) list \<Rightarrow> (('t, 'e) result, 'w) js" where
  "andThen_chain r [] = pure (Normal r)"
| "andThen_chain r (f # fs) = bind (andThen r f) (\<lambda>r'. andThen_chain r' fs)"

text \<open>
  A handler that keeps a record: it returns \<open>f x\<close> and appends \<open>tag x\<close> to the log of
  calls, which is the world of the state it runs in.
\<close>

definition recorded :: "('x \<Rightarrow> 'c) \<Rightarrow> ('x \<Rightarrow> 'u) \<Rightarrow> 'x \<Rightarrow> ('u, 'c list) js" where
  "recorded tag f x s = (Normal (f x), s\<lparr>world := world s @ [tag x]\<rparr>)"

text \<open>Whether \<open>part\<close> stands somewhere in \<open>msg\<close>, as one piece.\<close>

primrec contains :: "string \<Rightarrow> string \<Rightarrow> bool" where
  "contains [] part = (part = [])"
| "contains (c # cs) part = (take (length part) (c # cs) = part \<or> contains cs part)"

section \<open>Properties\<close>

subsection \<open>The two variants\<close>

text \<open>
  C6. A Result is exactly one of the two variants. \<^verbatim>\<open>ok(v)\<close> returns an \<^verbatim>\<open>Ok\<close>
  object, on which \<^verbatim>\<open>isOk\<close> answers true and \<^verbatim>\<open>isErr\<close> false; \<^verbatim>\<open>err(e)\<close> returns
  an \<^verbatim>\<open>Err\<close> object, on which the answers are the other way round; and no Result at
  all, whichever constructor, adapter or combinator produced it, answers both predicates
  alike.
\<close>

theorem result_exactly_one_variant:
  "fst (ok v s) = Normal (Ok (allocated s) v)
   \<and> isOk (Ok a v) \<and> \<not> isErr (Ok a v)
   \<and> fst (err e s) = Normal (Err (allocated s) e)
   \<and> isErr (Err a e) \<and> \<not> isOk (Err a e)
   \<and> (\<forall>r :: ('t, 'e) result. isOk r \<noteq> isErr r)"
proof -
  have "isOk r \<noteq> isErr r" for r :: "('t, 'e) result"
    by (cases r) simp_all
  then show ?thesis by (simp add: ok_def err_def new_Ok_def new_Err_def)
qed

subsection \<open>Unwrapping and defaults\<close>

lemma contains_append: "contains (before @ part) part"
  by (induction before) (simp_all, cases part, simp_all)

text \<open>
  What \<^verbatim>\<open>unwrap\<close> does, payload by payload: the outcome is decided by what the
  template literal's conversion of the payload does.
\<close>

lemma unwrap_cases:
  "unwrap (Ok a v) = Normal v"
  "ToString e = Normal str \<Longrightarrow>
     unwrap (Err a e) = Throw (new_Error (''Tried to unwrap an Err: '' @ str))"
  "ToString e = Normal str \<Longrightarrow>
     \<exists>msg. unwrap (Err a e) = Throw (ErrorInstance ''Error'' msg) \<and> contains msg str"
  "ToString e = Throw x \<Longrightarrow> unwrap (Err a e) = Throw x"
  "''toString'' \<notin> set (map fst props) \<Longrightarrow>
     unwrap (Err a (PlainObject props))
       = Throw (new_Error ''Tried to unwrap an Err: [object Object]'')"
proof -
  show "unwrap (Ok a v) = Normal v"
    by simp
  show unwrapped: "unwrap (Err a e) = Throw (new_Error (''Tried to unwrap an Err: '' @ str))"
    if "ToString e = Normal str"
    using that by simp
  show "\<exists>msg. unwrap (Err a e) = Throw (ErrorInstance ''Error'' msg) \<and> contains msg str"
    if "ToString e = Normal str"
  proof -
    have "unwrap (Err a e)
            = Throw (ErrorInstance ''Error'' (''Tried to unwrap an Err: '' @ str))"
      using that by (simp add: new_Error_def)
    moreover have "contains (''Tried to unwrap an Err: '' @ str) str"
      by (rule contains_append)
    ultimately show ?thesis by blast
  qed
  show "unwrap (Err a e) = Throw x" if "ToString e = Throw x"
    using that by simp
  show "unwrap (Err a (PlainObject props))
          = Throw (new_Error ''Tried to unwrap an Err: [object Object]'')"
    if "''toString'' \<notin> set (map fst props)"
    using that by simp
qed

text \<open>
  C2. The claim is that \<^verbatim>\<open>unwrap\<close> on a failure raises an error whose message
  contains a representation of the payload, for every payload. The code breaks it for a
  symbol: in \<^verbatim>\<open>err(Symbol("token")).unwrap()\<close> the template literal that builds the
  message cannot convert the symbol, so the engine's \<^verbatim>\<open>TypeError\<close> is raised before
  \<^verbatim>\<open>new Error\<close> is reached. The symbol has a representation, \<^verbatim>\<open>Symbol(token)\<close>, which
  \<^verbatim>\<open>String\<close> gives and which the capture adapters use; the message that is raised
  contains neither it nor the symbol's description.
\<close>

theorem unwrap_raises_TypeError_for_symbol_payload:
  "unwrap (Err 0 (JSSymbol (Some ''token'')) :: (unit, js_value) result)
     = Throw (ErrorInstance ''TypeError'' ''Cannot convert a Symbol value to a string'')
   \<and> js_String (JSSymbol (Some ''token'')) = Normal ''Symbol(token)''
   \<and> \<not> contains ''Cannot convert a Symbol value to a string'' ''Symbol(token)''
   \<and> \<not> contains ''Cannot convert a Symbol value to a string'' ''token''"
  by (simp add: new_TypeError_def)

text \<open>
  C9. The claim is that the error raised by \<^verbatim>\<open>unwrap\<close> on a failure has the message
  \<^verbatim>\<open>Tried to unwrap an Err: \<close> followed by the payload's string form, which for a
  plain object is \<^verbatim>\<open>[object Object]\<close>. The code breaks it where the template literal
  cannot convert the payload. For the object literal in
  \<^verbatim>\<open>err({ toString: null }).unwrap()\<close> what is raised is the engine's \<^verbatim>\<open>TypeError\<close>
  and not an error with the message \<^verbatim>\<open>Tried to unwrap an Err: [object Object]\<close>; for
  \<^verbatim>\<open>err(Symbol()).unwrap()\<close> it is the engine's \<^verbatim>\<open>TypeError\<close> and not an error
  with the message \<^verbatim>\<open>Tried to unwrap an Err: Symbol()\<close>.
\<close>

theorem unwrap_builds_no_message_when_conversion_throws:
  "unwrap (Err 0 (PlainObject [(''toString'', JSNull)]) :: (unit, js_value) result)
     = Throw (new_TypeError ''Cannot convert object to primitive value'')
   \<and> unwrap (Err 0 (PlainObject [(''toString'', JSNull)]) :: (unit, js_value) result)
     \<noteq> Throw (new_Error ''Tried to unwrap an Err: [object Object]'')
   \<and> unwrap (Err 0 (JSSymbol None) :: (unit, js_value) result)
     = Throw (new_TypeError ''Cannot convert a Symbol value to a string'')
   \<and> js_String (JSSymbol None) = Normal ''Symbol()''
   \<and> unwrap (Err 0 (JSSymbol None) :: (unit, js_value) result)
     \<noteq> Throw (new_Error ''Tried to unwrap an Err: Symbol()'')"
  by (simp add: new_TypeError_def new_Error_def)

text \<open>
  C7. The operations that substitute a default. On a success \<^verbatim>\<open>unwrapOr\<close> and
  \<^verbatim>\<open>unwrapOrElse\<close> return the held value and \<^verbatim>\<open>mapOr\<close> is the call of \<open>f\<close> on it;
  on a failure \<^verbatim>\<open>unwrapOr\<close> and \<^verbatim>\<open>mapOr\<close> return the default and
  \<^verbatim>\<open>unwrapOrElse\<close> is the call of \<open>f\<close> on the payload.
\<close>

theorem default_substitution:
  "unwrapOr (Ok a v) d = v
   \<and> unwrapOrElse (Ok a v) f s = (Normal v, s)
   \<and> mapOr (Ok a v) d' g s = g v s
   \<and> unwrapOr (Err a e) d = d
   \<and> unwrapOrElse (Err a e) f s = f e s
   \<and> mapOr (Err a e) d' g s = (Normal d', s)"
  by (simp add: pure_def)

subsection \<open>The transformers\<close>

text \<open>
  C4. \<^verbatim>\<open>map\<close> transforms the success side only and \<^verbatim>\<open>mapErr\<close> the failure side
  only. When \<open>fn\<close>, called on the held value, returns \<open>u\<close>, \<^verbatim>\<open>map\<close> on a success
  returns a newly constructed success holding \<open>u\<close>; \<^verbatim>\<open>map\<close> on a failure returns a
  failure holding the same payload. Symmetrically for \<^verbatim>\<open>mapErr\<close>.
\<close>

theorem map_and_mapErr_transform_one_side:
  fixes v :: 't and e :: 'e
  shows
  "(fn v s = (Normal u, t) \<longrightarrow>
      result_map (Ok a v :: ('t, 'e) result) fn s
        = (Normal (Ok (allocated t) u), t\<lparr>allocated := Suc (allocated t)\<rparr>))
   \<and> result_map (Err a e :: ('t, 'e) result) fn s
        = (Normal (Err (allocated s) e), s\<lparr>allocated := Suc (allocated s)\<rparr>)
   \<and> (gn e s = (Normal f, t') \<longrightarrow>
      mapErr (Err a e :: ('t, 'e) result) gn s
        = (Normal (Err (allocated t') f), t'\<lparr>allocated := Suc (allocated t')\<rparr>))
   \<and> mapErr (Ok a v :: ('t, 'e) result) gn s
        = (Normal (Ok (allocated s) v), s\<lparr>allocated := Suc (allocated s)\<rparr>)"
  by (simp add: bind_def new_Ok_def new_Err_def)

theorem map_and_mapErr_transform_one_side_witness:
  "result_map (Ok 0 20 :: (nat, string) result)
      (\<lambda>v s. (Normal (v + 1), s\<lparr>world := ''map'' # world s\<rparr>)) \<lparr>allocated = 1, world = []\<rparr>
     = (Normal (Ok 1 21), \<lparr>allocated = 2, world = [''map'']\<rparr>)
   \<and> mapErr (Err 0 ''no'' :: (nat, string) result)
      (\<lambda>e s. (Normal (length e), s\<lparr>world := ''mapErr'' # world s\<rparr>))
      \<lparr>allocated = 1, world = []\<rparr>
     = (Normal (Err 1 2), \<lparr>allocated = 2, world = [''mapErr'']\<rparr>)"
  using map_and_mapErr_transform_one_side
    [where fn = "\<lambda>v s. (Normal (v + 1), s\<lparr>world := ''map'' # world s\<rparr>)"
       and gn = "\<lambda>e s. (Normal (length e), s\<lparr>world := ''mapErr'' # world s\<rparr>)"
       and v = "20::nat" and e = "''no''" and a = 0
       and s = "\<lparr>allocated = 1, world = []\<rparr>"
       and u = 21 and t = "\<lparr>allocated = 1, world = [''map'']\<rparr>"
       and f = 2 and t' = "\<lparr>allocated = 1, world = [''mapErr'']\<rparr>"]
  by (simp add: numeral_2_eq_2)

text \<open>
  C5, as the code has it. \<^verbatim>\<open>map\<close>, \<^verbatim>\<open>mapErr\<close>, \<^verbatim>\<open>andThen\<close> and \<^verbatim>\<open>or\<close> raise
  no exception of their own, and each returns a Result unless the function it calls
  throws; then the transformer throws what the function threw, from the state the
  function left. \<^verbatim>\<open>map\<close>, \<^verbatim>\<open>mapErr\<close>, \<^verbatim>\<open>andThen\<close> on a failure and \<^verbatim>\<open>or\<close> on a
  success return a newly constructed Result: its address is the count of objects at the
  moment of construction. \<^verbatim>\<open>or\<close> on a failure returns its argument itself and
  constructs nothing; \<^verbatim>\<open>andThen\<close> on a success returns whatever Result its function
  returned.
\<close>

theorem transformers_return_unless_function_throws:
  fixes v :: 't and e :: 'e
  shows
  "(fn v s = (Normal u, t) \<longrightarrow>
      result_map (Ok a v :: ('t, 'e) result) fn s
        = (Normal (Ok (allocated t) u), t\<lparr>allocated := Suc (allocated t)\<rparr>))
   \<and> (fn v s = (Throw x, t) \<longrightarrow>
      result_map (Ok a v :: ('t, 'e) result) fn s = (Throw x, t))
   \<and> result_map (Err a e :: ('t, 'e) result) fn s
        = (Normal (Err (allocated s) e), s\<lparr>allocated := Suc (allocated s)\<rparr>)
   \<and> mapErr (Ok a v :: ('t, 'e) result) gn s
        = (Normal (Ok (allocated s) v), s\<lparr>allocated := Suc (allocated s)\<rparr>)
   \<and> (gn e s = (Normal f, t') \<longrightarrow>
      mapErr (Err a e :: ('t, 'e) result) gn s
        = (Normal (Err (allocated t') f), t'\<lparr>allocated := Suc (allocated t')\<rparr>))
   \<and> (gn e s = (Throw x', t') \<longrightarrow>
      mapErr (Err a e :: ('t, 'e) result) gn s = (Throw x', t'))
   \<and> andThen (Ok a v :: ('t, 'e) result) k s = k v s
   \<and> andThen (Err a e :: ('t, 'e) result) k s
        = (Normal (Err (allocated s) e), s\<lparr>allocated := Suc (allocated s)\<rparr>)
   \<and> result_or (Ok a v :: ('t, 'e) result) res s
        = (Normal (Ok (allocated s) v), s\<lparr>allocated := Suc (allocated s)\<rparr>)
   \<and> result_or (Err a e :: ('t, 'e) result) res s = (Normal res, s)"
  by (simp add: bind_def pure_def new_Ok_def new_Err_def)

theorem transformers_return_unless_function_throws_witness:
  "result_map (Ok 0 20 :: (nat, string) result)
      (\<lambda>v s. (Normal (v + 1), s\<lparr>world := ''map'' # world s\<rparr>)) \<lparr>allocated = 1, world = []\<rparr>
     = (Normal (Ok 1 21), \<lparr>allocated = 2, world = [''map'']\<rparr>)
   \<and> result_map (Ok 0 20 :: (nat, string) result)
      (\<lambda>v s. (Throw (JSString ''boom'') :: (nat, js_value) completion,
               s\<lparr>world := ''map'' # world s\<rparr>))
      \<lparr>allocated = 1, world = []\<rparr>
     = (Throw (JSString ''boom''), \<lparr>allocated = 1, world = [''map'']\<rparr>)
   \<and> mapErr (Err 0 ''no'' :: (nat, string) result)
      (\<lambda>e s. (Normal (length e), s\<lparr>world := ''mapErr'' # world s\<rparr>))
      \<lparr>allocated = 1, world = []\<rparr>
     = (Normal (Err 1 2), \<lparr>allocated = 2, world = [''mapErr'']\<rparr>)
   \<and> mapErr (Err 0 ''no'' :: (nat, string) result)
      (\<lambda>e s. (Throw JSNull :: (nat, js_value) completion, s\<lparr>world := ''mapErr'' # world s\<rparr>))
      \<lparr>allocated = 1, world = []\<rparr>
     = (Throw JSNull, \<lparr>allocated = 1, world = [''mapErr'']\<rparr>)"
proof -
  note returning = transformers_return_unless_function_throws
    [where fn = "\<lambda>v s. (Normal (v + 1), s\<lparr>world := ''map'' # world s\<rparr>)"
       and gn = "\<lambda>e s. (Normal (length e), s\<lparr>world := ''mapErr'' # world s\<rparr>)"
       and v = "20::nat" and e = "''no''" and a = 0
       and s = "\<lparr>allocated = 1, world = []\<rparr>"
       and u = 21 and t = "\<lparr>allocated = 1, world = [''map'']\<rparr>"
       and f = 2 and t' = "\<lparr>allocated = 1, world = [''mapErr'']\<rparr>"
       and x = JSNull and x' = JSNull
       and k = "\<lambda>v. pure (Normal (Ok 0 v))" and res = "Ok 0 20"]
  note throwing = transformers_return_unless_function_throws
    [where fn = "\<lambda>v s. (Throw (JSString ''boom'') :: (nat, js_value) completion,
                        s\<lparr>world := ''map'' # world s\<rparr>)"
       and gn = "\<lambda>e s. (Throw JSNull :: (nat, js_value) completion,
                        s\<lparr>world := ''mapErr'' # world s\<rparr>)"
       and v = "20::nat" and e = "''no''" and a = 0
       and s = "\<lparr>allocated = 1, world = []\<rparr>"
       and u = 21 and t = "\<lparr>allocated = 1, world = [''map'']\<rparr>"
       and f = 2 and t' = "\<lparr>allocated = 1, world = [''mapErr'']\<rparr>"
       and x = "JSString ''boom''" and x' = JSNull
       and k = "\<lambda>v. pure (Normal (Ok 0 v))" and res = "Ok 0 20"]
  have fn_returns:
    "(\<lambda>v s. (Normal (v + 1), s\<lparr>world := ''map'' # world s\<rparr>)) (20::nat)
        \<lparr>allocated = 1, world = []\<rparr>
       = (Normal 21, \<lparr>allocated = 1, world = [''map'']\<rparr>)"
    by simp
  have gn_returns:
    "(\<lambda>e s. (Normal (length e), s\<lparr>world := ''mapErr'' # world s\<rparr>)) ''no''
        \<lparr>allocated = 1, world = []\<rparr>
       = (Normal 2, \<lparr>allocated = 1, world = [''mapErr'']\<rparr>)"
    by simp
  have fn_throws:
    "(\<lambda>v s. (Throw (JSString ''boom'') :: (nat, js_value) completion,
              s\<lparr>world := ''map'' # world s\<rparr>)) (20::nat) \<lparr>allocated = 1, world = []\<rparr>
       = (Throw (JSString ''boom''), \<lparr>allocated = 1, world = [''map'']\<rparr>)"
    by simp
  have gn_throws:
    "(\<lambda>e s. (Throw JSNull :: (nat, js_value) completion,
              s\<lparr>world := ''mapErr'' # world s\<rparr>)) ''no'' \<lparr>allocated = 1, world = []\<rparr>
       = (Throw JSNull, \<lparr>allocated = 1, world = [''mapErr'']\<rparr>)"
    by simp
  have "result_map (Ok 0 20 :: (nat, string) result)
          (\<lambda>v s. (Normal (v + 1), s\<lparr>world := ''map'' # world s\<rparr>))
          \<lparr>allocated = 1, world = []\<rparr>
        = (Normal (Ok (allocated \<lparr>allocated = 1, world = [''map'']\<rparr>) 21),
           \<lparr>allocated = 1, world = [''map'']\<rparr>
             \<lparr>allocated := Suc (allocated \<lparr>allocated = 1, world = [''map'']\<rparr>)\<rparr>)"
    using returning fn_returns by blast
  moreover have "result_map (Ok 0 20 :: (nat, string) result)
          (\<lambda>v s. (Throw (JSString ''boom'') :: (nat, js_value) completion,
                   s\<lparr>world := ''map'' # world s\<rparr>))
          \<lparr>allocated = 1, world = []\<rparr>
        = (Throw (JSString ''boom''), \<lparr>allocated = 1, world = [''map'']\<rparr>)"
    using throwing fn_throws by blast
  moreover have "mapErr (Err 0 ''no'' :: (nat, string) result)
          (\<lambda>e s. (Normal (length e), s\<lparr>world := ''mapErr'' # world s\<rparr>))
          \<lparr>allocated = 1, world = []\<rparr>
        = (Normal (Err (allocated \<lparr>allocated = 1, world = [''mapErr'']\<rparr>) 2),
           \<lparr>allocated = 1, world = [''mapErr'']\<rparr>
             \<lparr>allocated := Suc (allocated \<lparr>allocated = 1, world = [''mapErr'']\<rparr>)\<rparr>)"
    using returning gn_returns by blast
  moreover have "mapErr (Err 0 ''no'' :: (nat, string) result)
          (\<lambda>e s. (Throw JSNull :: (nat, js_value) completion,
                   s\<lparr>world := ''mapErr'' # world s\<rparr>))
          \<lparr>allocated = 1, world = []\<rparr>
        = (Throw JSNull, \<lparr>allocated = 1, world = [''mapErr'']\<rparr>)"
    using throwing gn_throws by blast
  ultimately show ?thesis
    by (simp add: numeral_2_eq_2)
qed

text \<open>
  C5 as stated fails in both of its parts. A function that throws makes the transformer
  throw: \<^verbatim>\<open>ok(1).map(() => { throw "boom" })\<close> returns no Result. And not every Result
  returned is a new one: \<^verbatim>\<open>or\<close> on a failure returns the alternative that the caller
  constructed before, here the object at address 1 of two, and \<^verbatim>\<open>andThen\<close> on a success
  returns what its function returns, here the receiver itself; in both cases no object is
  constructed.
\<close>

theorem transformers_total_and_fresh_counterexample:
  "result_map (Ok 0 1 :: (nat, string) result)
      (\<lambda>v. pure (Throw (JSString ''boom'') :: (nat, js_value) completion))
      \<lparr>allocated = 1, world = ()\<rparr>
     = (Throw (JSString ''boom''), \<lparr>allocated = 1, world = ()\<rparr>)
   \<and> result_or (Err 0 ''no'' :: (nat, string) result) (Ok 1 5 :: (nat, string) result)
      \<lparr>allocated = 2, world = ()\<rparr>
     = (Normal (Ok 1 5), \<lparr>allocated = 2, world = ()\<rparr>)
   \<and> andThen (Ok 0 7 :: (nat, string) result) (\<lambda>v. pure (Normal (Ok 0 7)))
      \<lparr>allocated = 1, world = ()\<rparr>
     = (Normal (Ok 0 7), \<lparr>allocated = 1, world = ()\<rparr>)"
  by (simp add: bind_def pure_def)

text \<open>
  C10. On the variant that a function is not meant for, the function is not called: the
  outcome does not mention it, so it is the same for every two functions, and the world
  is the one before the call. This holds for \<^verbatim>\<open>map\<close>, \<^verbatim>\<open>andThen\<close> and \<^verbatim>\<open>mapOr\<close> on a
  failure and for \<^verbatim>\<open>mapErr\<close> and \<^verbatim>\<open>unwrapOrElse\<close> on a success.
\<close>

theorem unused_function_is_never_called:
  "result_map (Err a e) f s = result_map (Err a e) g s
   \<and> world (snd (result_map (Err a e) f s)) = world s
   \<and> andThen (Err a e) k s = andThen (Err a e) l s
   \<and> world (snd (andThen (Err a e) k s)) = world s
   \<and> mapOr (Err a e) d f s = (Normal d, s)
   \<and> mapErr (Ok a v) h s = mapErr (Ok a v) i s
   \<and> world (snd (mapErr (Ok a v) h s)) = world s
   \<and> unwrapOrElse (Ok a v) j s = (Normal v, s)"
  by (simp add: pure_def new_Ok_def new_Err_def)

subsection \<open>Chaining\<close>

lemma andThen_chain_from_Err:
  "\<exists>a'. andThen_chain (Err a e) fs s
          = (Normal (Err a' e), s\<lparr>allocated := allocated s + length fs\<rparr>)"
proof (induction fs arbitrary: a s)
  case Nil
  show ?case by (simp add: pure_def)
next
  case (Cons g gs)
  obtain a' where
    "andThen_chain (Err (allocated s) e) gs (s\<lparr>allocated := Suc (allocated s)\<rparr>)
       = (Normal (Err a' e),
          s\<lparr>allocated := Suc (allocated s)\<rparr>
           \<lparr>allocated := allocated (s\<lparr>allocated := Suc (allocated s)\<rparr>) + length gs\<rparr>)"
    using Cons.IH by blast
  then show ?case by (simp add: bind_def new_Err_def)
qed

lemma andThen_chain_append:
  "andThen_chain r (fs @ gs) s
     = (case andThen_chain r fs s of
          (Normal r', t) \<Rightarrow> andThen_chain r' gs t
        | (Throw x, t) \<Rightarrow> (Throw x, t))"
proof (induction fs arbitrary: r s)
  case Nil
  show ?case by (simp add: pure_def)
next
  case (Cons f fs)
  show ?case
  proof (cases "andThen r f s")
    case (Pair c t)
    then show ?thesis
      using Cons.IH by (cases c) (simp_all add: bind_def)
  qed
qed

text \<open>
  C3. \<^verbatim>\<open>andThen\<close> on a success is the call of the continuation on the held value and
  nothing else: what the continuation returns (or throws) is what \<^verbatim>\<open>andThen\<close> returns
  (or throws), with no wrapping. On a failure the continuation is not evaluated: the
  outcome is a failure holding the same payload, at the new type, exactly what
  \<^verbatim>\<open>err(e)\<close> gives there. In a chain of \<^verbatim>\<open>andThen\<close> steps that starts from a failure
  no step runs: the chain returns a failure with that payload, the world is untouched,
  and only the count of constructed objects has grown, by one for each step. So once
  the steps \<open>fs\<close> of a chain have produced a failure, the steps \<open>gs\<close> that follow are
  skipped and the chain returns a failure with the payload of that first one.
\<close>

theorem andThen_left_identity_and_short_circuit:
  "andThen (Ok a v) f s = f v s
   \<and> andThen (Err a e) f s = (Normal (Err (allocated s) e), s\<lparr>allocated := Suc (allocated s)\<rparr>)
   \<and> andThen (Err a e) f s = err e s
   \<and> (\<exists>a'. andThen_chain (Err a e) fs s
             = (Normal (Err a' e), s\<lparr>allocated := allocated s + length fs\<rparr>))
   \<and> (andThen_chain r fs s = (Normal (Err a e), t) \<longrightarrow>
        (\<exists>a'. andThen_chain r (fs @ gs) s
               = (Normal (Err a' e), t\<lparr>allocated := allocated t + length gs\<rparr>)))"
proof (intro conjI impI)
  show "andThen (Ok a v) f s = f v s"
    by simp
  show "andThen (Err a e) f s
          = (Normal (Err (allocated s) e), s\<lparr>allocated := Suc (allocated s)\<rparr>)"
    by (simp add: new_Err_def)
  show "andThen (Err a e) f s = err e s"
    by (simp add: err_def)
  show "\<exists>a'. andThen_chain (Err a e) fs s
               = (Normal (Err a' e), s\<lparr>allocated := allocated s + length fs\<rparr>)"
    by (rule andThen_chain_from_Err)
  show "\<exists>a'. andThen_chain r (fs @ gs) s
               = (Normal (Err a' e), t\<lparr>allocated := allocated t + length gs\<rparr>)"
    if "andThen_chain r fs s = (Normal (Err a e), t)"
    using that andThen_chain_from_Err [of a e gs t] by (simp add: andThen_chain_append)
qed

theorem andThen_left_identity_and_short_circuit_witness:
  "\<exists>a'. andThen_chain (Ok 0 ''jo'' :: (string, string) result)
           ([\<lambda>name. if length name < 3
                     then new_Err ''Username must be at least 3 characters''
                     else new_Ok name]
            @ [\<lambda>name s. (Normal (Ok 0 name), s\<lparr>world := ''email checked'' # world s\<rparr>)])
           \<lparr>allocated = 1, world = []\<rparr>
         = (Normal (Err a' ''Username must be at least 3 characters''),
            \<lparr>allocated = 3, world = []\<rparr>)"
proof -
  have first:
    "andThen_chain (Ok 0 ''jo'' :: (string, string) result)
       [\<lambda>name. if length name < 3
                then new_Err ''Username must be at least 3 characters''
                else new_Ok name]
       \<lparr>allocated = 1, world = [] :: string list\<rparr>
     = (Normal (Err 1 ''Username must be at least 3 characters''),
        \<lparr>allocated = 2, world = []\<rparr>)"
    by (simp add: bind_def pure_def new_Err_def numeral_2_eq_2)
  have "\<exists>a'. andThen_chain (Ok 0 ''jo'' :: (string, string) result)
           ([\<lambda>name. if length name < 3
                     then new_Err ''Username must be at least 3 characters''
                     else new_Ok name]
            @ [\<lambda>name s. (Normal (Ok 0 name), s\<lparr>world := ''email checked'' # world s\<rparr>)])
           \<lparr>allocated = 1, world = []\<rparr>
         = (Normal (Err a' ''Username must be at least 3 characters''),
            \<lparr>allocated = 2, world = []\<rparr>
              \<lparr>allocated := allocated \<lparr>allocated = 2, world = [] :: string list\<rparr>
                 + length [(\<lambda>name s. (Normal (Ok 0 name),
                                      s\<lparr>world := ''email checked'' # world s\<rparr>))
                           :: string \<Rightarrow> ((string, string) result, string list) js]\<rparr>)"
    by (rule andThen_left_identity_and_short_circuit
          [THEN conjunct2, THEN conjunct2, THEN conjunct2, THEN conjunct2, THEN mp, OF first])
  then show ?thesis
    by simp
qed

subsection \<open>Pattern matching\<close>

text \<open>
  C8. \<^verbatim>\<open>match\<close> on a success is one call of the success handler on the held value: it
  returns what that call returns and leaves the state that call leaves, whatever the
  failure handler is; and the other way round on a failure. With handlers that keep a
  record of their calls, the record after \<^verbatim>\<open>match\<close> on a success has gained the one
  entry of the success handler's call on \<open>v\<close> and none of the failure handler, and after
  \<^verbatim>\<open>match\<close> on a failure the one entry of the failure handler's call on \<open>e\<close>.
\<close>

theorem match_dispatches_once:
  "match (Ok a v) \<lparr>ok_case = onSuccess, err_case = onFailure\<rparr> s = onSuccess v s
   \<and> match (Err a e) \<lparr>ok_case = onSuccess, err_case = onFailure\<rparr> s = onFailure e s
   \<and> match (Ok a v) \<lparr>ok_case = recorded Inl f, err_case = recorded Inr g\<rparr> t
        = (Normal (f v), t\<lparr>world := world t @ [Inl v]\<rparr>)
   \<and> match (Err a e) \<lparr>ok_case = recorded Inl f, err_case = recorded Inr g\<rparr> t
        = (Normal (g e), t\<lparr>world := world t @ [Inr e]\<rparr>)"
  by (simp add: recorded_def)

subsection \<open>The capture adapters\<close>

text \<open>What the adapters do with each outcome of the wrapped function.\<close>

lemma catch_block_cases:
  "instanceof_Error x \<Longrightarrow>
     catch_block x s = (Normal (Err (allocated s) x), s\<lparr>allocated := Suc (allocated s)\<rparr>)"
  "\<not> instanceof_Error x \<Longrightarrow> js_String x = Normal text \<Longrightarrow>
     catch_block x s
       = (Normal (Err (allocated s) (new_Error text)), s\<lparr>allocated := Suc (allocated s)\<rparr>)"
  "\<not> instanceof_Error x \<Longrightarrow> js_String x = Throw y \<Longrightarrow> catch_block x s = (Throw y, s)"
  by (simp_all add: catch_block_def bind_def pure_def new_Err_def)

lemma tryFn_captures:
  "fn () s = (Normal v, t) \<Longrightarrow>
     tryFn fn s = (Normal (Ok (allocated t) v), t\<lparr>allocated := Suc (allocated t)\<rparr>)"
  "fn () s = (Throw x, t) \<Longrightarrow> instanceof_Error x \<Longrightarrow>
     tryFn fn s = (Normal (Err (allocated t) x), t\<lparr>allocated := Suc (allocated t)\<rparr>)"
  "fn () s = (Throw x, t) \<Longrightarrow> \<not> instanceof_Error x \<Longrightarrow> js_String x = Normal text \<Longrightarrow>
     tryFn fn s
       = (Normal (Err (allocated t) (new_Error text)), t\<lparr>allocated := Suc (allocated t)\<rparr>)"
  "fn () s = (Throw x, t) \<Longrightarrow> \<not> instanceof_Error x \<Longrightarrow> js_String x = Throw y \<Longrightarrow>
     tryFn fn s = (Throw y, t)"
  by (simp_all add: tryFn_def new_Ok_def catch_block_cases)

lemma tryAsync_captures:
  "fn () s = (Normal (Fulfilled v), t) \<Longrightarrow>
     tryAsync fn s = (Fulfilled (Ok (allocated t) v), t\<lparr>allocated := Suc (allocated t)\<rparr>)"
  "fn () s = (Normal (Rejected x), t) \<or> fn () s = (Throw x, t) \<Longrightarrow> instanceof_Error x \<Longrightarrow>
     tryAsync fn s = (Fulfilled (Err (allocated t) x), t\<lparr>allocated := Suc (allocated t)\<rparr>)"
  "fn () s = (Normal (Rejected x), t) \<or> fn () s = (Throw x, t) \<Longrightarrow>
     \<not> instanceof_Error x \<Longrightarrow> js_String x = Normal text \<Longrightarrow>
     tryAsync fn s
       = (Fulfilled (Err (allocated t) (new_Error text)), t\<lparr>allocated := Suc (allocated t)\<rparr>)"
  "fn () s = (Normal (Rejected x), t) \<or> fn () s = (Throw x, t) \<Longrightarrow>
     \<not> instanceof_Error x \<Longrightarrow> js_String x = Throw y \<Longrightarrow>
     tryAsync fn s = (Rejected y, t)"
  "fn () s = (Normal Pending, t) \<Longrightarrow> tryAsync fn s = (Pending, t)"
  by (auto simp add: tryAsync_def settle_def new_Ok_def catch_block_cases)

text \<open>
  C1. The claim is that no failure of the wrapped function leaves a capture adapter as an
  exception. The code breaks it where the thrown value is not an \<^verbatim>\<open>Error\<close> and
  \<^verbatim>\<open>String\<close> cannot convert it. For \<^verbatim>\<open>tryFn(() => { throw Object.create(null) })\<close>
  and for \<^verbatim>\<open>tryFn(() => { throw { toString: null } })\<close> the \<^verbatim>\<open>TypeError\<close> of the
  conversion leaves \<^verbatim>\<open>tryFn\<close>, and no Result is constructed. For
  \<^verbatim>\<open>tryAsync(() => Promise.reject(Object.create(null)))\<close> the promise that
  \<^verbatim>\<open>tryAsync\<close> returns is rejected with that \<^verbatim>\<open>TypeError\<close> instead of being
  fulfilled with a failure.
\<close>

theorem capture_adapters_let_conversion_failure_escape:
  "tryFn (\<lambda>_. pure (Throw null_prototype_object :: (unit, js_value) completion))
      \<lparr>allocated = 0, world = ()\<rparr>
     = (Throw (new_TypeError ''Cannot convert object to primitive value''),
        \<lparr>allocated = 0, world = ()\<rparr>)
   \<and> tryFn (\<lambda>_. pure (Throw (PlainObject [(''toString'', JSNull)])
                        :: (unit, js_value) completion))
      \<lparr>allocated = 0, world = ()\<rparr>
     = (Throw (new_TypeError ''Cannot convert object to primitive value''),
        \<lparr>allocated = 0, world = ()\<rparr>)
   \<and> tryAsync (\<lambda>_. pure (Normal (Rejected null_prototype_object :: unit promise)))
      \<lparr>allocated = 0, world = ()\<rparr>
     = (Rejected (new_TypeError ''Cannot convert object to primitive value''),
        \<lparr>allocated = 0, world = ()\<rparr>)"
  by (simp add: tryFn_def tryAsync_def settle_def catch_block_def bind_def pure_def
      null_prototype_object_def)

end
